theory Spec2Isabelle
  imports Main
begin

section \<open>The environment bootstrap script (lnode.js)\<close>

text \<open>
  The script reads \<^verbatim>\<open>process.version\<close>, takes its major number with
  \<^verbatim>\<open>parseInt(currentVersion.substring(1).split('.')[0], 10)\<close>, compares it with
  \<^verbatim>\<open>CONFIG.minNodeVersion\<close>, and runs the install chain when it is lower. It then
  configures the npm registry and, on Windows, checks the build tools. Every external
  command goes through \<^verbatim>\<open>execSync\<close>, which returns the command's output or throws.

  A string is the list of its bytes; the version strings, file names and registry
  addresses the script handles are ASCII. Calls of \<^verbatim>\<open>logger\<close> only print and are left
  out of the model: they change no state and decide no branch.
\<close>

subsection \<open>Strings and numbers of the host language\<close>

definition isDigit :: "char \<Rightarrow> bool" where
  "isDigit c = (48 \<le> (of_char c :: nat) \<and> (of_char c :: nat) \<le> 57)"

definition digitVal :: "char \<Rightarrow> nat" where
  "digitVal c = of_char c - 48"

definition digitsVal :: "string \<Rightarrow> nat" where
  "digitsVal ds = foldl (\<lambda>n c. 10 * n + digitVal c) 0 ds"

text \<open>The white space that \<^verbatim>\<open>parseInt\<close> and \<^verbatim>\<open>trim\<close> strip: tab, line feed, vertical
  tab, form feed, carriage return and space (the ASCII ones of the language's list).\<close>

definition isWhiteSpace :: "char \<Rightarrow> bool" where
  "isWhiteSpace c =
     (let n = (of_char c :: nat)
      in n = 9 \<or> n = 10 \<or> n = 11 \<or> n = 12 \<or> n = 13 \<or> n = 32)"

definition trim :: "string \<Rightarrow> string" where
  "trim s = rev (dropWhile isWhiteSpace (rev (dropWhile isWhiteSpace s)))"

text \<open>\<^verbatim>\<open>parseInt(s, 10)\<close>: leading white space is skipped, one sign is read, then the
  longest run of decimal digits; with no digit the result is NaN, here \<open>None\<close>. The
  number is only ever compared with \<^verbatim>\<open><\<close> against the configured integer, so a
  mathematical integer stands for the double (the two agree on every comparison with
  an integer below \<open>2\<^sup>5\<^sup>3\<close>, since rounding is monotone).\<close>

definition parseInt :: "string \<Rightarrow> int option" where
  "parseInt s =
     (let t = dropWhile isWhiteSpace s;
          neg = (case t of [] \<Rightarrow> False | c # _ \<Rightarrow> c = CHR ''-'');
          u = (case t of [] \<Rightarrow> t
               | c # r \<Rightarrow> if c = CHR ''-'' \<or> c = CHR ''+'' then r else t);
          ds = takeWhile isDigit u
      in if ds = [] then None
         else Some (if neg then - int (digitsVal ds) else int (digitsVal ds)))"

text \<open>\<^verbatim>\<open>a < b\<close> on numbers: false whenever \<open>a\<close> is NaN.\<close>

definition js_less :: "int option \<Rightarrow> int \<Rightarrow> bool" where
  "js_less a b = (case a of None \<Rightarrow> False | Some x \<Rightarrow> x < b)"

text \<open>\<^verbatim>\<open>s.split(sep)\<close> for a one-character separator; the result is never empty.\<close>

fun split :: "char \<Rightarrow> string \<Rightarrow> string list" where
  "split sep [] = [[]]"
| "split sep (c # cs) =
     (if c = sep then [] # split sep cs
      else (case split sep cs of [] \<Rightarrow> [[c]] | p # ps \<Rightarrow> (c # p) # ps))"

definition startsWith :: "string \<Rightarrow> string \<Rightarrow> bool" where
  "startsWith p s = (take (length p) s = p)"

definition endsWith :: "string \<Rightarrow> string \<Rightarrow> bool" where
  "endsWith p s = (length p \<le> length s \<and> drop (length s - length p) s = p)"

fun includes_str :: "string \<Rightarrow> string \<Rightarrow> bool" where
  "includes_str p [] = (p = [])"
| "includes_str p (c # cs) = (startsWith p (c # cs) \<or> includes_str p cs)"

subsection \<open>Configuration and the version gate\<close>

definition minNodeVersion :: int where
  "minNodeVersion = 22"

definition npmRegistry :: string where
  "npmRegistry = ''https://registry.npmmirror.com''"

definition majorVersion :: "string \<Rightarrow> int option" where
  "majorVersion currentVersion = parseInt (hd (split (CHR ''.'') (drop 1 currentVersion)))"

text \<open>The gate of \<^verbatim>\<open>main\<close>: the install chain runs when
  \<^verbatim>\<open>majorVersion < CONFIG.minNodeVersion\<close>, and the version satisfies the minimum
  otherwise.\<close>

definition satisfies :: "string \<Rightarrow> int \<Rightarrow> bool" where
  "satisfies currentVersion minimum = (\<not> js_less (majorVersion currentVersion) minimum)"

subsection \<open>The host and its commands\<close>

text \<open>
  The command lines the script passes to \<^verbatim>\<open>execSync\<close>, in the order of the
  constructors:
  \<^verbatim>\<open>npm config get registry\<close>,
  \<^verbatim>\<open>npm config set registry <url>\<close>,
  \<^verbatim>\<open>msiexec /i "<path>" /qn /norestart\<close>,
  \<^verbatim>\<open>sudo installer -pkg "<path>" -target /\<close>,
  \<^verbatim>\<open>winget install OpenJS.NodeJS.LTS --accept-source-agreements\<close>,
  \<^verbatim>\<open>brew install node\<close>,
  \<^verbatim>\<open>python --version\<close> and
  \<^verbatim>\<open>npm install -g node-gyp\<close>.
  The two local installers carry the file name found in the tool directory, from which
  the script builds the installer path.
\<close>

datatype command =
    NpmConfigGetRegistry
  | NpmConfigSetRegistry string
  | Msiexec string
  | SudoInstaller string
  | WingetInstallNodeLTS
  | BrewInstallNode
  | PythonVersion
  | NpmInstallNodeGyp

text \<open>
  The host the script runs on: what \<^verbatim>\<open>os.platform()\<close>, \<^verbatim>\<open>process.version\<close> and
  \<^verbatim>\<open>fs.readdirSync(__dirname)\<close> return (\<open>None\<close> when reading the directory throws),
  the registry npm has stored and the text npm prints for a stored registry, which calls
  of \<^verbatim>\<open>execSync\<close> throw (by the number of calls made before and the command), and the
  calls made so far, each with whether it returned. The script does not decide how npm
  prints a registry or which command fails, so both are parameters of the host.
\<close>

record host =
  platform :: string
  version :: string
  readdir :: "string list option"
  registry :: string
  npmPrints :: "string \<Rightarrow> string"
  throws :: "nat \<Rightarrow> command \<Rightarrow> bool"
  trace :: "(command \<times> bool) list"

text \<open>What a command prints and what it changes when it returns: npm prints the stored
  registry, and stores the one it is given. The output of the other commands is not
  read.\<close>

definition stdout :: "command \<Rightarrow> host \<Rightarrow> string" where
  "stdout c h = (case c of NpmConfigGetRegistry \<Rightarrow> npmPrints h (registry h) | _ \<Rightarrow> [])"

definition effect :: "command \<Rightarrow> host \<Rightarrow> host" where
  "effect c h = (case c of NpmConfigSetRegistry u \<Rightarrow> h\<lparr>registry := u\<rparr> | _ \<Rightarrow> h)"

definition execSync :: "command \<Rightarrow> host \<Rightarrow> string option \<times> host" where
  "execSync c h =
     (if throws h (length (trace h)) c
      then (None, h\<lparr>trace := trace h @ [(c, False)]\<rparr>)
      else (Some (stdout c h), effect c (h\<lparr>trace := trace h @ [(c, True)]\<rparr>)))"

subsection \<open>The stages of the script\<close>

definition configureNpmMirror :: "host \<Rightarrow> host" where
  "configureNpmMirror h =
     (case execSync NpmConfigGetRegistry h of
        (None, h1) \<Rightarrow> h1
      | (Some out, h1) \<Rightarrow>
          if trim out \<noteq> npmRegistry
          then snd (execSync (NpmConfigSetRegistry npmRegistry) h1)
          else h1)"

definition checkAndInstallBuildTools :: "host \<Rightarrow> host" where
  "checkAndInstallBuildTools h =
     (case execSync PythonVersion h of
        (Some _, h1) \<Rightarrow> h1
      | (None, h1) \<Rightarrow> snd (execSync NpmInstallNodeGyp h1))"

datatype completion = Normal | Thrown

text \<open>\<^verbatim>\<open>findLocalInstaller\<close>: \<open>None\<close> when reading the directory throws. A name that
  \<^verbatim>\<open>find\<close> returns starts with \<^verbatim>\<open>node\<close>, so it is a truthy string for \<^verbatim>\<open>||\<close> and
  for the caller's \<^verbatim>\<open>if (localInstaller)\<close>.\<close>

definition findLocalInstaller :: "string \<Rightarrow> host \<Rightarrow> string option option" where
  "findLocalInstaller p h =
     (case readdir h of
        None \<Rightarrow> None
      | Some files \<Rightarrow> Some
          (if p = ''win32'' then
             (case List.find (\<lambda>f. startsWith ''node-v'' f \<and> endsWith ''.msi'' f
                                   \<and> includes_str ''x64'' f) files of
                Some f \<Rightarrow> Some f
              | None \<Rightarrow> List.find (\<lambda>f. startsWith ''node'' f \<and> endsWith ''.msi'' f) files)
           else if p = ''darwin'' then
             List.find (\<lambda>f. startsWith ''node'' f \<and> endsWith ''.pkg'' f) files
           else None))"

text \<open>The online fallback of \<^verbatim>\<open>installLatestNode\<close>: winget on Windows, brew on macOS,
  only a printed suggestion elsewhere. A failure is caught and printed.\<close>

definition onlineInstall :: "string \<Rightarrow> host \<Rightarrow> host" where
  "onlineInstall p h =
     (if p = ''win32'' then snd (execSync WingetInstallNodeLTS h)
      else if p = ''darwin'' then snd (execSync BrewInstallNode h)
      else h)"

definition installLatestNode :: "string \<Rightarrow> host \<Rightarrow> completion \<times> host" where
  "installLatestNode p h =
     (case findLocalInstaller p h of
        None \<Rightarrow> (Thrown, h)
      | Some None \<Rightarrow> (Normal, onlineInstall p h)
      | Some (Some f) \<Rightarrow>
          if p = ''win32'' then
            (case execSync (Msiexec f) h of
               (Some _, h1) \<Rightarrow> (Normal, h1)
             | (None, h1) \<Rightarrow> (Normal, onlineInstall p h1))
          else if p = ''darwin'' then
            (case execSync (SudoInstaller f) h of
               (Some _, h1) \<Rightarrow> (Normal, h1)
             | (None, h1) \<Rightarrow> (Normal, onlineInstall p h1))
          else (Normal, onlineInstall p h))"

text \<open>\<^verbatim>\<open>main\<close> returns the exit status with the host: 1 when an exception reaches its
  \<^verbatim>\<open>catch\<close>, which calls \<^verbatim>\<open>process.exit(1)\<close>, and 0 otherwise.\<close>

definition main :: "host \<Rightarrow> nat \<times> host" where
  "main h =
     (case (if js_less (majorVersion (version h)) minNodeVersion
            then installLatestNode (platform h) h
            else (Normal, h)) of
        (Thrown, h1) \<Rightarrow> (1, h1)
      | (Normal, h1) \<Rightarrow>
          (let h2 = configureNpmMirror h1;
               h3 = (if platform h = ''win32'' then checkAndInstallBuildTools h2 else h2)
           in (0, h3)))"

section \<open>The update flow of the control panel (App.tsx)\<close>

text \<open>
  The component keeps its state in React state variables and talks to the host process
  through \<^verbatim>\<open>invoke\<close>, which returns a promise: it resolves with the command's result
  or rejects with an error. A rejected promise is \<open>Inl e\<close>, with \<open>e\<close> the text that
  \<^verbatim>\<open>String(e)\<close> gives for the thrown value; a resolved one is \<open>Inr\<close> of the result.
  Calls of \<^verbatim>\<open>appLogger\<close> only print and are left out.
\<close>

subsection \<open>Data\<close>

text \<open>The three interfaces of the source. Both \<^verbatim>\<open>UpdateInfo\<close> and \<^verbatim>\<open>UpdateResult\<close> have
  a field \<^verbatim>\<open>error\<close>; the first is \<open>info_error\<close> here.\<close>

record EnvironmentStatus =
  node_installed :: bool
  node_version :: "string option"
  node_version_ok :: bool
  openclaw_installed :: bool
  openclaw_version :: "string option"
  config_dir_exists :: bool
  ready :: bool
  os :: string

record UpdateInfo =
  update_available :: bool
  current_version :: "string option"
  latest_version :: "string option"
  info_error :: "string option"

record UpdateResult =
  success :: bool
  message :: string
  error :: "string option"

text \<open>The commands the component passes to \<^verbatim>\<open>invoke\<close> in the functions modelled here.\<close>

datatype rpc = check_environment | check_openclaw_update | backup_user_config | update_openclaw

text \<open>What one call of \<^verbatim>\<open>handleUpdate\<close> meets: whether the page runs inside the
  desktop shell (\<^verbatim>\<open>isTauri()\<close>), and how the promise of each command it invokes
  settles.\<close>

record backend =
  isTauri :: bool
  check_environment_reply :: "string + EnvironmentStatus"
  backup_user_config_reply :: "string + string"
  update_openclaw_reply :: "string + UpdateResult"

text \<open>
  The state variables of the component that the update flow reads or writes, with two
  fields of bookkeeping: the commands passed to \<^verbatim>\<open>invoke\<close> so far, in order, and the
  number of three-second timeouts that \<^verbatim>\<open>handleUpdate\<close> has set and that have not
  fired yet.
\<close>

record app =
  isReady :: "bool option"
  envStatus :: "EnvironmentStatus option"
  updateInfo :: "UpdateInfo option"
  showUpdateBanner :: bool
  updating :: bool
  updateResult :: "UpdateResult option"
  invoked :: "rpc list"
  timers :: nat

text \<open>The message of the result that the \<^verbatim>\<open>catch\<close> of \<^verbatim>\<open>handleUpdate\<close> stores, as the
  UTF-8 bytes of the source's literal.\<close>

definition updateErrorMessage :: string where
  "updateErrorMessage =
     [CHR 0xE6, CHR 0x9B, CHR 0xB4, CHR 0xE6, CHR 0x96, CHR 0xB0, CHR 0xE8, CHR 0xBF, CHR 0x87,
      CHR 0xE7, CHR 0xA8, CHR 0x8B, CHR 0xE4, CHR 0xB8, CHR 0xAD, CHR 0xE5, CHR 0x8F, CHR 0x91,
      CHR 0xE7, CHR 0x94, CHR 0x9F, CHR 0xE9, CHR 0x94, CHR 0x99, CHR 0xE8, CHR 0xAF, CHR 0xAF]"

subsection \<open>The asynchronous functions, run to completion\<close>

text \<open>\<^verbatim>\<open>checkEnvironment\<close> and \<^verbatim>\<open>checkUpdate\<close>, given what \<^verbatim>\<open>isTauri()\<close> returns and
  how the promise of their one call settles.\<close>

definition environment_settled ::
    "string + EnvironmentStatus \<Rightarrow> 'a app_scheme \<Rightarrow> 'a app_scheme" where
  "environment_settled r s =
     (case r of
        Inr status \<Rightarrow> s\<lparr>envStatus := Some status, isReady := Some True\<rparr>
      | Inl e \<Rightarrow> s\<lparr>isReady := Some True\<rparr>)"

definition checkEnvironment ::
    "bool \<Rightarrow> string + EnvironmentStatus \<Rightarrow> 'a app_scheme \<Rightarrow> 'a app_scheme" where
  "checkEnvironment t r s =
     (if \<not> t then s\<lparr>isReady := Some True\<rparr>
      else environment_settled r (s\<lparr>invoked := invoked s @ [check_environment]\<rparr>))"

definition checkUpdate ::
    "bool \<Rightarrow> string + UpdateInfo \<Rightarrow> 'a app_scheme \<Rightarrow> 'a app_scheme" where
  "checkUpdate t r s =
     (if \<not> t then s
      else (case r of
              Inr info \<Rightarrow>
                (let s1 = s\<lparr>invoked := invoked s @ [check_openclaw_update],
                              updateInfo := Some info\<rparr>
                 in if update_available info then s1\<lparr>showUpdateBanner := True\<rparr> else s1)
            | Inl e \<Rightarrow> s\<lparr>invoked := invoked s @ [check_openclaw_update]\<rparr>))"

text \<open>\<^verbatim>\<open>handleUpdate\<close>: the body of the \<^verbatim>\<open>try\<close>, the \<^verbatim>\<open>catch\<close> for a rejected call, and
  the \<^verbatim>\<open>finally\<close> that every path goes through.\<close>

definition handleUpdate :: "backend \<Rightarrow> 'a app_scheme \<Rightarrow> 'a app_scheme" where
  "handleUpdate b s =
     (let s1 = s\<lparr>updating := True, updateResult := None,
                   invoked := invoked s @ [backup_user_config]\<rparr>;
          s2 =
            (case backup_user_config_reply b of
               Inl e \<Rightarrow>
                 s1\<lparr>updateResult :=
                      Some \<lparr>success = False, message = updateErrorMessage, error = Some e\<rparr>\<rparr>
             | Inr backupMsg \<Rightarrow>
                 (let s3 = s1\<lparr>invoked := invoked s1 @ [update_openclaw]\<rparr>
                  in case update_openclaw_reply b of
                       Inl e \<Rightarrow>
                         s3\<lparr>updateResult :=
                              Some \<lparr>success = False, message = updateErrorMessage,
                                    error = Some e\<rparr>\<rparr>
                     | Inr result \<Rightarrow>
                         (let s4 = s3\<lparr>updateResult := Some result\<rparr>
                          in if success result
                             then (let s5 = checkEnvironment (isTauri b)
                                              (check_environment_reply b) s4
                                   in s5\<lparr>timers := Suc (timers s5)\<rparr>)
                             else s4)))
      in s2\<lparr>updating := False\<rparr>)"

text \<open>The callback of the timeout, and what the page renders. While \<^verbatim>\<open>isReady\<close> is
  \<^verbatim>\<open>null\<close> the component returns the loading screen; after that the banner with its
  two buttons is rendered under the condition
  \<^verbatim>\<open>showUpdateBanner && updateInfo?.update_available\<close>.\<close>

definition timeoutFired :: "'a app_scheme \<Rightarrow> 'a app_scheme" where
  "timeoutFired s = s\<lparr>showUpdateBanner := False, updateResult := None, timers := timers s - 1\<rparr>"

definition bannerCondition :: "'a app_scheme \<Rightarrow> bool" where
  "bannerCondition s =
     (showUpdateBanner s \<and> (case updateInfo s of None \<Rightarrow> False | Some i \<Rightarrow> update_available i))"

definition bannerShown :: "'a app_scheme \<Rightarrow> bool" where
  "bannerShown s = (isReady s \<noteq> None \<and> bannerCondition s)"

subsection \<open>The same functions, one await at a time\<close>

text \<open>
  An \<^verbatim>\<open>await\<close> suspends the function until the promise settles, and other events are
  handled in between. The machine keeps, beside the state of the component, the
  activations of \<^verbatim>\<open>handleUpdate\<close> that are suspended, each at the call it waits for.

  The events \<open>ClickUpdate\<close> and \<open>ClickLater\<close> are clicks that reach the \<^verbatim>\<open>onClick\<close>
  handler of the two buttons. The buttons are rendered with \<^verbatim>\<open>disabled={updating}\<close>,
  inside a banner wrapped in \<^verbatim>\<open>AnimatePresence\<close>; which clicks the page delivers is
  decided there and not by the handlers, and \<^verbatim>\<open>handleUpdate\<close> itself tests neither
  \<^verbatim>\<open>updating\<close> nor the banner before it starts. So the machine runs the handler for
  every click that reaches it.
\<close>

datatype await = AwaitBackup | AwaitUpdate | AwaitEnvironment

record machine = app +
  inflight :: "await list"

datatype event =
    ClickUpdate
  | ClickLater
  | BackupSettled "string + string"
  | UpdateSettled "string + UpdateResult"
  | EnvironmentSettled "string + EnvironmentStatus"
  | TimeoutFired
  | UpdateChecked "string + UpdateInfo"
  | EnvironmentChecked "string + EnvironmentStatus"


text \<open>The pieces of \<^verbatim>\<open>handleUpdate\<close> between its awaits: up to the first call, the
  \<^verbatim>\<open>catch\<close> followed by the \<^verbatim>\<open>finally\<close>, and the end of the \<^verbatim>\<open>try\<close> after a
  successful update followed by the \<^verbatim>\<open>finally\<close>.\<close>

definition handleUpdate_catch :: "string \<Rightarrow> machine \<Rightarrow> machine" where
  "handleUpdate_catch e m =
     m\<lparr>updateResult := Some \<lparr>success = False, message = updateErrorMessage, error = Some e\<rparr>,
       updating := False\<rparr>"

definition handleUpdate_done :: "machine \<Rightarrow> machine" where
  "handleUpdate_done m = m\<lparr>timers := Suc (timers m), updating := False\<rparr>"

text \<open>An activation leaves the await it was suspended at, and is suspended at the
  next one.\<close>

definition resume :: "await \<Rightarrow> machine \<Rightarrow> machine" where
  "resume a m = m\<lparr>inflight := remove1 a (inflight m)\<rparr>"

definition suspend :: "await \<Rightarrow> machine \<Rightarrow> machine" where
  "suspend a m = m\<lparr>inflight := inflight m @ [a]\<rparr>"

definition handleUpdate_start :: "machine \<Rightarrow> machine" where
  "handleUpdate_start m =
     suspend AwaitBackup
       (m\<lparr>updating := True, updateResult := None,
          invoked := invoked m @ [backup_user_config]\<rparr>)"

text \<open>One event. A promise settles only for an activation that waits for it; the two
  checks outside \<^verbatim>\<open>handleUpdate\<close> are taken as one event each, at the time their call
  settles.\<close>

fun step :: "bool \<Rightarrow> machine \<Rightarrow> event \<Rightarrow> machine" where
  "step t m ClickUpdate = handleUpdate_start m"
| "step t m ClickLater = m\<lparr>showUpdateBanner := False\<rparr>"
| "step t m (BackupSettled r) =
     (if AwaitBackup \<notin> set (inflight m) then m
      else (case r of
              Inl e \<Rightarrow> handleUpdate_catch e (resume AwaitBackup m)
            | Inr backupMsg \<Rightarrow>
                suspend AwaitUpdate
                  ((resume AwaitBackup m)\<lparr>invoked := invoked m @ [update_openclaw]\<rparr>)))"
| "step t m (UpdateSettled r) =
     (if AwaitUpdate \<notin> set (inflight m) then m
      else (case r of
              Inl e \<Rightarrow> handleUpdate_catch e (resume AwaitUpdate m)
            | Inr result \<Rightarrow>
                (let m1 = (resume AwaitUpdate m)\<lparr>updateResult := Some result\<rparr>
                 in if \<not> success result then m1\<lparr>updating := False\<rparr>
                    else if \<not> t then handleUpdate_done (m1\<lparr>isReady := Some True\<rparr>)
                    else suspend AwaitEnvironment
                           (m1\<lparr>invoked := invoked m1 @ [check_environment]\<rparr>))))"
| "step t m (EnvironmentSettled r) =
     (if AwaitEnvironment \<notin> set (inflight m) then m
      else handleUpdate_done (environment_settled r (resume AwaitEnvironment m)))"
| "step t m TimeoutFired = (if timers m = 0 then m else timeoutFired m)"
| "step t m (UpdateChecked r) = checkUpdate t r m"
| "step t m (EnvironmentChecked r) = checkEnvironment t r m"

definition initial :: machine where
  "initial =
     \<lparr>isReady = None, envStatus = None, updateInfo = None, showUpdateBanner = False,
      updating = False, updateResult = None, invoked = [], timers = 0, inflight = []\<rparr>"

definition run :: "bool \<Rightarrow> machine \<Rightarrow> event list \<Rightarrow> machine" where
  "run t m es = foldl (step t) m es"

text \<open>The events of one call of \<^verbatim>\<open>handleUpdate\<close> that runs to completion: the click
  that starts it, then each promise it awaits settling as the backend says.\<close>

definition attempt :: "backend \<Rightarrow> event list" where
  "attempt b =
     ClickUpdate # BackupSettled (backup_user_config_reply b) #
       (case backup_user_config_reply b of
          Inl e \<Rightarrow> []
        | Inr backupMsg \<Rightarrow>
            UpdateSettled (update_openclaw_reply b) #
              (case update_openclaw_reply b of
                 Inl e \<Rightarrow> []
               | Inr result \<Rightarrow>
                   if success result \<and> isTauri b
                   then [EnvironmentSettled (check_environment_reply b)] else []))"

text \<open>The commands a function invoked, between the state it started in and the state
  it left.\<close>

definition calls :: "'a app_scheme \<Rightarrow> 'a app_scheme \<Rightarrow> rpc list" where
  "calls s s' = drop (length (invoked s)) (invoked s')"

subsection \<open>Example states and backends\<close>

text \<open>An update from 0.0.5 to 0.0.6 is on offer; \<open>idle\<close> is the component after the
  check has found it, with the banner on the page and no attempt running. One backend
  refuses the backup with a permission error, the other performs backup and update.
  \<open>mounted\<close> and \<open>opened\<close> are what happens after the component is mounted: the
  environment check settles, so the main page is rendered, and then the update check
  finds the offer.\<close>

definition offer :: UpdateInfo where
  "offer = \<lparr>update_available = True, current_version = Some ''0.0.5'',
            latest_version = Some ''0.0.6'', info_error = None\<rparr>"

definition mounted :: "event list" where
  "mounted = [EnvironmentChecked (Inl ''unreachable'')]"

definition opened :: "event list" where
  "opened = mounted @ [UpdateChecked (Inr offer)]"

definition idle :: app where
  "idle = \<lparr>isReady = Some True, envStatus = None, updateInfo = Some offer,
           showUpdateBanner = True, updating = False, updateResult = None,
           invoked = [check_openclaw_update], timers = 0\<rparr>"

definition deniedBackup :: backend where
  "deniedBackup =
     \<lparr>isTauri = True, check_environment_reply = Inl ''unreachable'',
      backup_user_config_reply = Inl ''Permission denied (os error 13)'',
      update_openclaw_reply = Inr \<lparr>success = True, message = ''updated'', error = None\<rparr>\<rparr>"

definition goodBackend :: backend where
  "goodBackend =
     \<lparr>isTauri = True, check_environment_reply = Inl ''unreachable'',
      backup_user_config_reply = Inr ''backed up'',
      update_openclaw_reply = Inr \<lparr>success = True, message = ''updated'', error = None\<rparr>\<rparr>"

section \<open>Notions used to state the properties\<close>

subsection \<open>The spec's version comparison\<close>

text \<open>
  The spec compares semantic versions: a version string has a (major, minor, patch)
  tuple of numbers, and the installed version satisfies the minimum when its tuple is
  lexicographically greater than or equal to the minimum's. The four definitions below
  follow these words, not the script: a version string is three runs of decimal digits
  separated by dots, after an optional leading \<^verbatim>\<open>v\<close>; a string of any other shape has
  no tuple, and then nothing is installed that could satisfy a minimum.
\<close>

definition spec_number :: "string \<Rightarrow> int option" where
  "spec_number ds =
     (if ds \<noteq> [] \<and> list_all isDigit ds then Some (int (digitsVal ds)) else None)"

definition spec_version_tuple :: "string \<Rightarrow> (int \<times> int \<times> int) option" where
  "spec_version_tuple V =
     (case split (CHR ''.'') (if startsWith ''v'' V then drop 1 V else V) of
        [a, b, c] \<Rightarrow>
          (case (spec_number a, spec_number b, spec_number c) of
             (Some x, Some y, Some z) \<Rightarrow> Some (x, y, z)
           | _ \<Rightarrow> None)
      | _ \<Rightarrow> None)"

fun spec_tuple_ge :: "int \<times> int \<times> int \<Rightarrow> int \<times> int \<times> int \<Rightarrow> bool" where
  "spec_tuple_ge (a, b, c) (x, y, z) =
     (a > x \<or> (a = x \<and> (b > y \<or> (b = y \<and> c \<ge> z))))"

definition spec_satisfies :: "string \<Rightarrow> int \<times> int \<times> int \<Rightarrow> bool" where
  "spec_satisfies V M =
     (case spec_version_tuple V of None \<Rightarrow> False | Some t \<Rightarrow> spec_tuple_ge t M)"

subsection \<open>Commands run by a stage\<close>

text \<open>The calls of \<^verbatim>\<open>execSync\<close> made between two hosts, the kinds of command, and
  what \<^verbatim>\<open>main\<close> does after the version gate.\<close>

definition ran :: "host \<Rightarrow> host \<Rightarrow> (command \<times> bool) list" where
  "ran h h' = drop (length (trace h)) (trace h')"

definition localInstall :: "command \<Rightarrow> bool" where
  "localInstall c = (case c of Msiexec _ \<Rightarrow> True | SudoInstaller _ \<Rightarrow> True | _ \<Rightarrow> False)"

definition packageManagerInstall :: "command \<Rightarrow> bool" where
  "packageManagerInstall c = (c = WingetInstallNodeLTS \<or> c = BrewInstallNode)"

definition installCommand :: "command \<Rightarrow> bool" where
  "installCommand c = (localInstall c \<or> packageManagerInstall c)"

definition registryWrite :: "command \<Rightarrow> bool" where
  "registryWrite c = (case c of NpmConfigSetRegistry _ \<Rightarrow> True | _ \<Rightarrow> False)"

definition afterGate :: "host \<Rightarrow> host" where
  "afterGate h =
     (if platform h = ''win32'' then checkAndInstallBuildTools (configureNpmMirror h)
      else configureNpmMirror h)"

text \<open>The shapes of what the install chain runs: nothing, one install command, or a
  local installer that failed followed by one package manager.\<close>

definition chain :: "(command \<times> bool) list \<Rightarrow> bool" where
  "chain evs =
     (evs = [] \<or> (\<exists>c ok. evs = [(c, ok)] \<and> installCommand c)
      \<or> (\<exists>c c' ok. evs = [(c, False), (c', ok)] \<and> localInstall c
            \<and> packageManagerInstall c'))"

subsection \<open>Example hosts\<close>

text \<open>A Windows host with Node.js 18.2.0, a bundled installer in the tool directory,
  npm's default registry, printed on a line of its own, and no failing command; the same
  host with Node.js 22.1.0, with a version string that has no number, with the second
  call of \<^verbatim>\<open>execSync\<close> failing, and with an npm that prints a registry with a slash
  at its end.\<close>

definition exampleHost :: host where
  "exampleHost =
     \<lparr>platform = ''win32'', version = ''v18.2.0'',
      readdir = Some [''readme.txt'', ''node-v22.1.0-x64.msi''],
      registry = ''https://registry.npmjs.org/'',
      npmPrints = (\<lambda>u. u @ [CHR 0x0A]),
      throws = (\<lambda>n c. False), trace = []\<rparr>"

definition satisfiedHost :: host where
  "satisfiedHost = exampleHost\<lparr>version := ''v22.1.0''\<rparr>"




subsection \<open>The flag and the suspended activations\<close>

text \<open>While \<^verbatim>\<open>updating\<close> is true, some activation of \<^verbatim>\<open>handleUpdate\<close> is
  suspended.\<close>

definition attempt_inv :: "machine \<Rightarrow> bool" where
  "attempt_inv m = (inflight m \<noteq> [] \<or> \<not> updating m)"

section \<open>Properties of the bootstrap script\<close>

subsection \<open>Parsing a run of digits\<close>

lemma digit_not_space: "isDigit c \<Longrightarrow> \<not> isWhiteSpace c"
  by (auto simp: isDigit_def isWhiteSpace_def Let_def)

lemma digit_not_sign: "isDigit c \<Longrightarrow> c \<noteq> CHR ''-'' \<and> c \<noteq> CHR ''+''"
  by (auto simp: isDigit_def)

lemma takeWhile_all: "list_all P xs \<Longrightarrow> takeWhile P xs = xs"
  by (induction xs) auto

lemma parseInt_digits:
  assumes "ds \<noteq> []" and "list_all isDigit ds"
  shows "parseInt ds = Some (int (digitsVal ds))"
proof -
  from assms obtain c r where ds: "ds = c # r" and c: "isDigit c"
    by (cases ds) auto
  have t: "dropWhile isWhiteSpace ds = ds"
    using c digit_not_space by (simp add: ds)
  have tw: "takeWhile isDigit ds = ds"
    using assms(2) by (rule takeWhile_all)
  show ?thesis
    unfolding parseInt_def t Let_def using digit_not_sign[OF c] tw assms(1)
    by (simp add: ds)
qed

lemma spec_number_Some: "spec_number ds = Some x \<Longrightarrow> parseInt ds = Some x \<and> 0 \<le> x"
  by (auto simp: spec_number_def parseInt_digits split: if_splits)

subsection \<open>The version gate against the spec's comparison\<close>

text \<open>
  Claim C1, as the spec states it: for every installed-version string V and minimum M,
  the gate is satisfied if and only if V's (major, minor, patch) tuple is
  lexicographically at least M's. The script does less: it drops the first character of
  the string whatever it is, reads the major number only, and compares it with the
  major number of the minimum. So the version string \<^verbatim>\<open>22.0.0\<close>, written without the
  leading \<^verbatim>\<open>v\<close>, is read as major 2 and fails the configured minimum 22 although its
  tuple equals the minimum's; and \<^verbatim>\<open>v22.0.0\<close> passes a minimum with major 22 although
  the tuple (22, 1, 0) is greater.
\<close>

theorem satisfies_not_tuple_ge_counterexample:
  "(\<not> satisfies ''22.0.0'' minNodeVersion
      \<and> spec_satisfies ''22.0.0'' (minNodeVersion, 0, 0))
   \<and> (satisfies ''v22.0.0'' 22 \<and> \<not> spec_satisfies ''v22.0.0'' (22, 1, 0))"
  by code_simp

text \<open>
  Claim C1, amended: for every installed-version string V of the form
  \<^verbatim>\<open>v<major>.<minor>.<patch>\<close> with decimal numbers, and every minimum given by its major
  number m alone (as the configuration gives it), the gate is satisfied if and only if
  V's tuple is lexicographically at least (m, 0, 0).
\<close>

theorem satisfies_iff_tuple_ge:
  assumes "spec_version_tuple (CHR ''v'' # rest) = Some t"
  shows "satisfies (CHR ''v'' # rest) m \<longleftrightarrow> spec_tuple_ge t (m, 0, 0)"
proof -
  from assms obtain a b c x y z where
    sp: "split (CHR ''.'') rest = [a, b, c]" and
    n: "spec_number a = Some x" "spec_number b = Some y" "spec_number c = Some z" and
    t: "t = (x, y, z)"
    by (auto simp: spec_version_tuple_def startsWith_def split: list.splits option.splits)
  have "majorVersion (CHR ''v'' # rest) = Some x"
    using spec_number_Some[OF n(1)] by (simp add: majorVersion_def sp)
  moreover have "0 \<le> y" "0 \<le> z"
    using spec_number_Some[OF n(2)] spec_number_Some[OF n(3)] by simp_all
  ultimately show ?thesis
    by (auto simp: satisfies_def js_less_def t)
qed

theorem satisfies_iff_tuple_ge_witness:
  "spec_version_tuple ''v18.2.0'' = Some (18, 2, 0)
   \<and> (satisfies ''v18.2.0'' 22 \<longleftrightarrow> spec_tuple_ge (18, 2, 0) (22, 0, 0))
   \<and> \<not> satisfies ''v18.2.0'' 22"
proof -
  have t: "spec_version_tuple (CHR ''v'' # ''18.2.0'') = Some (18, 2, 0)"
    by code_simp
  show ?thesis
    using t satisfies_iff_tuple_ge [OF t, of 22] by simp
qed

subsection \<open>What each stage runs\<close>

lemma execSync_trace [simp]:
  "trace (snd (execSync c h)) = trace h @ [(c, \<not> throws h (length (trace h)) c)]"
  by (simp add: execSync_def effect_def split: command.splits)

lemma execSync_fst:
  "fst (execSync c h) = (if throws h (length (trace h)) c then None else Some (stdout c h))"
  by (simp add: execSync_def)

lemma onlineInstall_trace:
  "\<exists>evs. trace (onlineInstall p h) = trace h @ evs \<and>
     (evs = [] \<or> (\<exists>c ok. evs = [(c, ok)] \<and> packageManagerInstall c))"
  by (simp add: onlineInstall_def packageManagerInstall_def)

lemma online_chain: "\<exists>evs. trace (onlineInstall p h) = trace h @ evs \<and> chain evs"
  using onlineInstall_trace[of p h] by (auto simp: chain_def installCommand_def)

lemma local_attempt_trace:
  assumes "localInstall c"
  shows "\<exists>evs. trace (case execSync c h of (Some x, h1) \<Rightarrow> h1
                        | (None, h1) \<Rightarrow> onlineInstall p h1)
            = trace h @ evs \<and> chain evs"
proof (cases "throws h (length (trace h)) c")
  case True
  then have "execSync c h = (None, h\<lparr>trace := trace h @ [(c, False)]\<rparr>)"
    by (simp add: execSync_def)
  moreover obtain evs where
    "trace (onlineInstall p (h\<lparr>trace := trace h @ [(c, False)]\<rparr>))
       = (trace h @ [(c, False)]) @ evs"
    "evs = [] \<or> (\<exists>c' ok. evs = [(c', ok)] \<and> packageManagerInstall c')"
    using onlineInstall_trace[of p "h\<lparr>trace := trace h @ [(c, False)]\<rparr>"] by auto
  ultimately show ?thesis
    using assms by (auto simp: chain_def installCommand_def)
next
  case False
  then have "trace (snd (execSync c h)) = trace h @ [(c, True)]" "fst (execSync c h) \<noteq> None"
    by (simp_all add: execSync_fst)
  then show ?thesis
    using assms by (cases "execSync c h") (auto simp: chain_def installCommand_def)
qed

lemma installLatestNode_snd:
  "snd (installLatestNode p h) =
     (case findLocalInstaller p h of
        None \<Rightarrow> h
      | Some None \<Rightarrow> onlineInstall p h
      | Some (Some f) \<Rightarrow>
          if p = ''win32'' then
            (case execSync (Msiexec f) h of
               (Some x, h1) \<Rightarrow> h1 | (None, h1) \<Rightarrow> onlineInstall p h1)
          else if p = ''darwin'' then
            (case execSync (SudoInstaller f) h of
               (Some x, h1) \<Rightarrow> h1 | (None, h1) \<Rightarrow> onlineInstall p h1)
          else onlineInstall p h)"
  by (simp add: installLatestNode_def split: option.splits prod.splits)

lemma installLatestNode_trace:
  "\<exists>evs. trace (snd (installLatestNode p h)) = trace h @ evs \<and> chain evs"
proof (cases "findLocalInstaller p h")
  case None
  then show ?thesis by (simp add: installLatestNode_snd chain_def)
next
  case (Some r)
  show ?thesis
  proof (cases r)
    case None
    with Some online_chain[of p h] show ?thesis
      by (simp add: installLatestNode_snd)
  next
    case (Some f)
    have l: "localInstall (Msiexec f)" "localInstall (SudoInstaller f)"
      by (simp_all add: localInstall_def)
    from \<open>findLocalInstaller p h = Some r\<close> Some show ?thesis
      using local_attempt_trace[where c="Msiexec f" and h=h and p=p, OF l(1)]
        local_attempt_trace[where c="SudoInstaller f" and h=h and p=p, OF l(2)]
        online_chain[of p h]
      by (simp add: installLatestNode_snd)
  qed
qed

lemma configureNpmMirror_cases:
  "configureNpmMirror h =
     (if throws h (length (trace h)) NpmConfigGetRegistry
      then h\<lparr>trace := trace h @ [(NpmConfigGetRegistry, False)]\<rparr>
      else if trim (npmPrints h (registry h)) = npmRegistry
      then h\<lparr>trace := trace h @ [(NpmConfigGetRegistry, True)]\<rparr>
      else if throws h (Suc (length (trace h))) (NpmConfigSetRegistry npmRegistry)
      then h\<lparr>trace := trace h @ [(NpmConfigGetRegistry, True),
                                   (NpmConfigSetRegistry npmRegistry, False)]\<rparr>
      else h\<lparr>trace := trace h @ [(NpmConfigGetRegistry, True),
                                   (NpmConfigSetRegistry npmRegistry, True)],
             registry := npmRegistry\<rparr>)"
  by (simp add: configureNpmMirror_def execSync_def stdout_def effect_def)

lemma configureNpmMirror_trace:
  "\<exists>ok rest. trace (configureNpmMirror h) = trace h @ (NpmConfigGetRegistry, ok) # rest
      \<and> list_all (\<lambda>e. registryWrite (fst e)) rest"
  by (auto simp: configureNpmMirror_cases registryWrite_def)

lemma checkAndInstallBuildTools_trace:
  "\<exists>evs. trace (checkAndInstallBuildTools h) = trace h @ evs
      \<and> list_all (\<lambda>e. fst e = PythonVersion \<or> fst e = NpmInstallNodeGyp) evs"
  by (auto simp: checkAndInstallBuildTools_def execSync_def effect_def stdout_def
      split: prod.splits)

lemma configureNpmMirror_platform [simp]: "platform (configureNpmMirror h) = platform h"
  by (simp add: configureNpmMirror_cases)

lemma installLatestNode_platform [simp]: "platform (snd (installLatestNode p h)) = platform h"
  by (simp add: installLatestNode_snd onlineInstall_def split: option.splits prod.splits)
    (auto simp: execSync_def effect_def)

lemma main_unfold:
  "main h =
     (if js_less (majorVersion (version h)) minNodeVersion
      then (case installLatestNode (platform h) h of
              (Thrown, h1) \<Rightarrow> (1, h1)
            | (Normal, h1) \<Rightarrow> (0, afterGate h1))
      else (0, afterGate h))"
  by (auto simp: main_def afterGate_def Let_def split: prod.splits completion.splits
      dest: arg_cong[where f = "\<lambda>r. platform (snd r)"])

lemma not_install_get: "\<not> installCommand NpmConfigGetRegistry"
  by (simp add: installCommand_def localInstall_def packageManagerInstall_def)

lemma afterGate_trace:
  "\<exists>ok rest. trace (afterGate h) = trace h @ (NpmConfigGetRegistry, ok) # rest
      \<and> list_all (\<lambda>e. \<not> installCommand (fst e)) rest"
proof -
  obtain ok rest where
    c: "trace (configureNpmMirror h) = trace h @ (NpmConfigGetRegistry, ok) # rest"
      "list_all (\<lambda>e. registryWrite (fst e)) rest"
    using configureNpmMirror_trace[of h] by blast
  obtain evs where
    t: "trace (checkAndInstallBuildTools (configureNpmMirror h))
          = trace (configureNpmMirror h) @ evs"
      "list_all (\<lambda>e. fst e = PythonVersion \<or> fst e = NpmInstallNodeGyp) evs"
    using checkAndInstallBuildTools_trace[of "configureNpmMirror h"] by blast
  have r: "list_all (\<lambda>e. \<not> installCommand (fst e)) rest"
    using c(2) by (auto simp: list_all_iff registryWrite_def installCommand_def
        localInstall_def packageManagerInstall_def split: command.splits)
  have e: "list_all (\<lambda>e. \<not> installCommand (fst e)) evs"
    using t(2) by (auto simp: list_all_iff installCommand_def localInstall_def
        packageManagerInstall_def)
  show ?thesis
  proof (cases "platform h = ''win32''")
    case True
    then have "trace (afterGate h) = trace h @ (NpmConfigGetRegistry, ok) # (rest @ evs)"
      by (simp add: afterGate_def t(1) c(1))
    with r e show ?thesis by (metis list_all_append)
  next
    case False
    with c(1) r show ?thesis by (auto simp: afterGate_def)
  qed
qed

lemma afterGate_ran:
  "\<exists>ok rest. ran h (afterGate h) = (NpmConfigGetRegistry, ok) # rest
      \<and> list_all (\<lambda>e. \<not> installCommand (fst e)) ((NpmConfigGetRegistry, ok) # rest)"
  using afterGate_trace[of h] by (auto simp: ran_def not_install_get)

lemma chain_installs: "chain evs \<Longrightarrow> list_all (\<lambda>e. installCommand (fst e)) evs"
  by (auto simp: chain_def installCommand_def)

lemma chain_first_success_last:
  assumes "chain evs" and "evs = pre @ (c, True) # post"
  shows "post = []"
  using assms by (auto simp: chain_def Cons_eq_append_conv append_eq_Cons_conv)

lemma chain_local_success:
  assumes "chain evs" and "localInstall c" and "(c, True) \<in> set evs" and "e \<in> set evs"
  shows "\<not> packageManagerInstall (fst e)"
  using assms
  by (auto simp: chain_def installCommand_def localInstall_def packageManagerInstall_def)

lemma main_trace:
  "\<exists>evs later. trace (snd (main h)) = trace h @ evs @ later \<and> chain evs
      \<and> list_all (\<lambda>e. \<not> installCommand (fst e)) later"
proof (cases "js_less (majorVersion (version h)) minNodeVersion")
  case False
  then have "snd (main h) = afterGate h" by (simp add: main_unfold)
  moreover have "chain []" by (simp add: chain_def)
  moreover obtain ok rest where
    "trace (afterGate h) = trace h @ (NpmConfigGetRegistry, ok) # rest"
    "list_all (\<lambda>e. \<not> installCommand (fst e)) rest"
    using afterGate_trace[of h] by blast
  ultimately show ?thesis using not_install_get
    by (intro exI[of _ "[]"] exI[of _ "(NpmConfigGetRegistry, ok) # rest"]) simp
next
  case True
  obtain c h1 where i: "installLatestNode (platform h) h = (c, h1)"
    by (cases "installLatestNode (platform h) h")
  obtain evs where evs: "trace h1 = trace h @ evs" "chain evs"
    using installLatestNode_trace[of "platform h" h] by (auto simp: i)
  show ?thesis
  proof (cases c)
    case Thrown
    with True i have "snd (main h) = h1" by (simp add: main_unfold)
    with evs show ?thesis by (intro exI[of _ evs] exI[of _ "[]"]) simp
  next
    case Normal
    with True i have m: "snd (main h) = afterGate h1" by (simp add: main_unfold)
    obtain ok rest where
      "trace (afterGate h1) = trace h1 @ (NpmConfigGetRegistry, ok) # rest"
      "list_all (\<lambda>e. \<not> installCommand (fst e)) rest"
      using afterGate_trace[of h1] by blast
    then show ?thesis using evs m not_install_get
      by (intro exI[of _ evs] exI[of _ "(NpmConfigGetRegistry, ok) # rest"]) simp
  qed
qed




lemma main_install_attempts:
  "\<exists>evs. filter (\<lambda>e. installCommand (fst e)) (ran h (snd (main h))) = evs \<and> chain evs"
proof -
  obtain evs later where t: "trace (snd (main h)) = trace h @ evs @ later" "chain evs"
      "list_all (\<lambda>e. \<not> installCommand (fst e)) later"
    using main_trace[of h] by blast
  have "filter (\<lambda>e. installCommand (fst e)) later = []"
    using t(3) by (auto simp: list_all_iff filter_empty_conv)
  moreover have "filter (\<lambda>e. installCommand (fst e)) evs = evs"
    using chain_installs[OF t(2)] by (auto simp: list_all_iff filter_id_conv)
  ultimately show ?thesis using t by (simp add: ran_def)
qed

subsection \<open>The version gate and the install chain\<close>

text \<open>
  Claim C7: the version gate is the sole trigger for the install chain. Whenever the
  installed version satisfies the minimum, the run skips the whole chain: it does not
  read the tool directory, runs no install command, exits with status 0, and the first
  command it runs is the one that reads the npm registry. Whenever the version does not
  satisfy the minimum, the run enters \<^verbatim>\<open>installLatestNode\<close>.
\<close>

theorem satisfied_gate_skips_install_chain:
  "(satisfies (version h) minNodeVersion \<longrightarrow>
      main h = (0, afterGate h)
      \<and> (\<exists>ok rest. ran h (snd (main h)) = (NpmConfigGetRegistry, ok) # rest)
      \<and> list_all (\<lambda>e. \<not> installCommand (fst e)) (ran h (snd (main h))))
   \<and> (\<not> satisfies (version h) minNodeVersion \<longrightarrow>
      main h = (case installLatestNode (platform h) h of
                  (Thrown, h1) \<Rightarrow> (1, h1)
                | (Normal, h1) \<Rightarrow> (0, afterGate h1)))"
  using afterGate_ran[of h] by (auto simp: satisfies_def main_unfold)

theorem satisfied_gate_skips_install_chain_witness:
  "satisfies (version satisfiedHost) minNodeVersion
   \<and> main satisfiedHost = (0, afterGate satisfiedHost)
   \<and> ran satisfiedHost (snd (main satisfiedHost))
       = [(NpmConfigGetRegistry, True), (NpmConfigSetRegistry npmRegistry, True),
          (PythonVersion, True)]
   \<and> \<not> satisfies (version exampleHost) minNodeVersion
   \<and> main exampleHost = (0, afterGate (snd (installLatestNode ''win32'' exampleHost)))"
proof -
  have s: "satisfies (version satisfiedHost) minNodeVersion"
    by code_simp
  have n: "\<not> satisfies (version exampleHost) minNodeVersion"
    by code_simp
  have r: "ran satisfiedHost (afterGate satisfiedHost)
       = [(NpmConfigGetRegistry, True), (NpmConfigSetRegistry npmRegistry, True),
          (PythonVersion, True)]"
    by code_simp
  have i: "fst (installLatestNode ''win32'' exampleHost) = Normal"
    by code_simp
  have p: "platform exampleHost = ''win32''"
    by (simp add: exampleHost_def)
  show ?thesis
    using satisfied_gate_skips_install_chain [of satisfiedHost]
      satisfied_gate_skips_install_chain [of exampleHost] s n r i p
    by (simp split: prod.splits completion.splits)
qed




text \<open>
  Claim C5: in every run of the install chain, once a candidate succeeds no further
  candidate is attempted, and if the local installer succeeds no package manager is
  invoked. Stated for the commands that \<^verbatim>\<open>installLatestNode\<close> runs and for the install
  commands of a whole run of \<^verbatim>\<open>main\<close>: a command that returned is the last one, and
  after a local installer that returned no command of the run is a package manager.
\<close>

theorem install_chain_stops_at_first_success:
  "(\<forall>pre c post. ran h (snd (installLatestNode p h)) = pre @ (c, True) # post
       \<longrightarrow> post = [])
   \<and> (\<forall>c e. localInstall c \<and> (c, True) \<in> set (ran h (snd (installLatestNode p h)))
         \<and> e \<in> set (ran h (snd (installLatestNode p h)))
       \<longrightarrow> \<not> packageManagerInstall (fst e))
   \<and> (\<forall>pre c post. filter (\<lambda>e. installCommand (fst e)) (ran h (snd (main h)))
         = pre @ (c, True) # post \<longrightarrow> post = [])
   \<and> (\<forall>c e. localInstall c \<and> (c, True) \<in> set (ran h (snd (main h)))
         \<and> e \<in> set (ran h (snd (main h)))
       \<longrightarrow> \<not> packageManagerInstall (fst e))"
proof -
  obtain evs where a: "ran h (snd (installLatestNode p h)) = evs" "chain evs"
    using installLatestNode_trace[of p h] by (auto simp: ran_def)
  obtain evs' where
    b: "filter (\<lambda>e. installCommand (fst e)) (ran h (snd (main h))) = evs'" "chain evs'"
    using main_install_attempts[of h] by blast
  have 1: "\<forall>pre c post. ran h (snd (installLatestNode p h)) = pre @ (c, True) # post
       \<longrightarrow> post = []"
    using chain_first_success_last[OF a(2)] a(1) by blast
  have 2: "\<forall>c e. localInstall c \<and> (c, True) \<in> set (ran h (snd (installLatestNode p h)))
         \<and> e \<in> set (ran h (snd (installLatestNode p h)))
       \<longrightarrow> \<not> packageManagerInstall (fst e)"
    using chain_local_success[OF a(2)] a(1) by blast
  have 3: "\<forall>pre c post. filter (\<lambda>e. installCommand (fst e)) (ran h (snd (main h)))
         = pre @ (c, True) # post \<longrightarrow> post = []"
    using chain_first_success_last[OF b(2)] b(1) by blast
  have 4: "\<not> packageManagerInstall (fst e)"
    if "localInstall c" "(c, True) \<in> set (ran h (snd (main h)))"
      "e \<in> set (ran h (snd (main h)))"
    for c e
  proof
    assume pm: "packageManagerInstall (fst e)"
    have "(c, True) \<in> set evs'"
      using that(1,2) b(1) by (auto simp: installCommand_def)
    moreover have "e \<in> set evs'"
      using that(3) pm b(1) by (auto simp: installCommand_def)
    ultimately show False
      using chain_local_success[OF b(2) that(1)] pm by blast
  qed
  from 1 2 3 4 show ?thesis by blast
qed

theorem install_chain_stops_at_first_success_witness:
  "ran exampleHost (snd (installLatestNode ''win32'' exampleHost))
     = [] @ (Msiexec ''node-v22.1.0-x64.msi'', True) # []
   \<and> localInstall (Msiexec ''node-v22.1.0-x64.msi'')
   \<and> (Msiexec ''node-v22.1.0-x64.msi'', True) \<in> set (ran exampleHost (snd (main exampleHost)))
   \<and> (PythonVersion, True) \<in> set (ran exampleHost (snd (main exampleHost)))
   \<and> \<not> packageManagerInstall (fst (PythonVersion, True))
   \<and> list_all (\<lambda>e. \<not> packageManagerInstall (fst e))
        (ran exampleHost (snd (main exampleHost)))"
proof -
  have i: "ran exampleHost (snd (installLatestNode ''win32'' exampleHost))
     = [(Msiexec ''node-v22.1.0-x64.msi'', True)]"
    by code_simp
  have m: "ran exampleHost (snd (main exampleHost))
     = [(Msiexec ''node-v22.1.0-x64.msi'', True), (NpmConfigGetRegistry, True),
        (NpmConfigSetRegistry npmRegistry, True), (PythonVersion, True)]"
    by code_simp
  show ?thesis
    using install_chain_stops_at_first_success [of exampleHost "''win32''"] i m
    by (simp add: localInstall_def packageManagerInstall_def)
qed

subsection \<open>The registry mirror\<close>




section \<open>Properties of the update flow\<close>

subsection \<open>One call of the handler\<close>

lemma handleUpdate_calls:
  "calls s (handleUpdate b s) =
     (case backup_user_config_reply b of
        Inl e \<Rightarrow> [backup_user_config]
      | Inr backupMsg \<Rightarrow>
          backup_user_config # update_openclaw #
            (case update_openclaw_reply b of
               Inl e \<Rightarrow> []
             | Inr result \<Rightarrow>
                 if success result \<and> isTauri b then [check_environment] else []))"
  by (simp add: calls_def handleUpdate_def checkEnvironment_def environment_settled_def Let_def
      split: sum.splits)

lemma handleUpdate_backup_rejected:
  "backup_user_config_reply b = Inl e \<Longrightarrow>
     handleUpdate b s =
       s\<lparr>updating := False,
         updateResult := Some \<lparr>success = False, message = updateErrorMessage, error = Some e\<rparr>,
         invoked := invoked s @ [backup_user_config]\<rparr>"
  by (simp add: handleUpdate_def)

lemma handleUpdate_updating: "\<not> updating (handleUpdate b s)"
  by (simp add: handleUpdate_def Let_def)

lemma handleUpdate_inflight: "inflight (handleUpdate b m) = inflight m"
  by (simp add: handleUpdate_def checkEnvironment_def environment_settled_def Let_def
      split: sum.splits)

subsection \<open>The machine\<close>

text \<open>Run from a state where no activation is suspended, the events of one attempt
  leave the component in the state that \<^verbatim>\<open>handleUpdate\<close>, run to completion,
  computes.\<close>

lemma run_attempt:
  assumes "inflight m = []"
  shows "run (isTauri b) m (attempt b) = handleUpdate b m"
  using assms
  by (auto simp: run_def attempt_def handleUpdate_def handleUpdate_start_def
      handleUpdate_catch_def handleUpdate_done_def resume_def suspend_def checkEnvironment_def
      environment_settled_def Let_def split: sum.splits)

lemma step_calls_update:
  assumes "update_openclaw \<in> set (calls m (step t m e))"
  shows "(\<exists>backupMsg. e = BackupSettled (Inr backupMsg)) \<and> AwaitBackup \<in> set (inflight m)"
  using assms
  by (cases e)
    (auto simp: calls_def handleUpdate_start_def handleUpdate_catch_def handleUpdate_done_def
      resume_def suspend_def checkEnvironment_def checkUpdate_def environment_settled_def
      timeoutFired_def
      Let_def split: if_splits sum.splits)

lemma step_inv: "attempt_inv m \<Longrightarrow> attempt_inv (step t m e)"
  by (cases e)
    (auto simp: attempt_inv_def handleUpdate_start_def handleUpdate_catch_def
      handleUpdate_done_def resume_def suspend_def checkEnvironment_def checkUpdate_def
      environment_settled_def timeoutFired_def Let_def split: sum.splits)

lemma run_snoc: "run t m (es @ [e]) = step t (run t m es) e"
  by (simp add: run_def)

lemma run_inv: "attempt_inv m \<Longrightarrow> attempt_inv (run t m es)"
  by (induction es rule: rev_induct) (simp_all add: run_snoc step_inv, simp add: run_def)

lemma initial_inv: "attempt_inv initial"
  by (simp add: attempt_inv_def initial_def)

subsection \<open>Backup before apply\<close>

text \<open>
  Claim C2: the update handler never invokes the apply step, \<^verbatim>\<open>update_openclaw\<close>,
  unless the backup, \<^verbatim>\<open>backup_user_config\<close>, of the same attempt completed first. For
  one call of the handler: if it invokes the apply step then the backup's promise
  resolved, and the commands of the call begin with the backup followed by the apply
  step. For the machine: the only event on which the apply step is invoked is a backup
  that resolves for an activation waiting for it.
\<close>

theorem backup_before_apply:
  "(update_openclaw \<in> set (calls s (handleUpdate b s)) \<longrightarrow>
      (\<exists>backupMsg. backup_user_config_reply b = Inr backupMsg)
      \<and> (\<exists>rest. calls s (handleUpdate b s) = backup_user_config # update_openclaw # rest))
   \<and> (update_openclaw \<in> set (calls m (step t m e)) \<longrightarrow>
      (\<exists>backupMsg. e = BackupSettled (Inr backupMsg)) \<and> AwaitBackup \<in> set (inflight m))"
proof -
  have "update_openclaw \<in> set (calls s (handleUpdate b s)) \<longrightarrow>
      (\<exists>backupMsg. backup_user_config_reply b = Inr backupMsg)
      \<and> (\<exists>rest. calls s (handleUpdate b s) = backup_user_config # update_openclaw # rest)"
    by (cases "backup_user_config_reply b") (simp_all add: handleUpdate_calls)
  then show ?thesis using step_calls_update[of m t e] by blast
qed

theorem backup_before_apply_witness:
  "update_openclaw \<in> set (calls idle (handleUpdate goodBackend idle))
   \<and> backup_user_config_reply goodBackend = Inr ''backed up''
   \<and> calls idle (handleUpdate goodBackend idle)
       = [backup_user_config, update_openclaw, check_environment]
   \<and> update_openclaw \<in> set (calls (run True initial (opened @ [ClickUpdate]))
        (step True (run True initial (opened @ [ClickUpdate]))
           (BackupSettled (Inr ''backed up''))))
   \<and> AwaitBackup \<in> set (inflight (run True initial (opened @ [ClickUpdate])))"
proof -
  have 1: "calls idle (handleUpdate goodBackend idle)
       = [backup_user_config, update_openclaw, check_environment]"
    by code_simp
  have 2: "backup_user_config_reply goodBackend = Inr ''backed up''"
    by code_simp
  have 3: "update_openclaw \<in> set (calls (run True initial (opened @ [ClickUpdate]))
        (step True (run True initial (opened @ [ClickUpdate]))
           (BackupSettled (Inr ''backed up''))))"
    by code_simp
  show ?thesis
    using backup_before_apply [of idle goodBackend
        "run True initial (opened @ [ClickUpdate])" True
        "BackupSettled (Inr ''backed up'')"] 1 2 3
    by simp
qed

text \<open>
  Claim C4: if the backup step of an update attempt throws, the attempt ends with the
  result \<^verbatim>\<open>{success: false, error: <the thrown error's text>}\<close> and the apply step is
  never invoked in that attempt: the backup is the only command of the call.
\<close>

theorem backup_failure_reported:
  assumes "backup_user_config_reply b = Inl e"
  shows "updateResult (handleUpdate b s)
           = Some \<lparr>success = False, message = updateErrorMessage, error = Some e\<rparr>
         \<and> calls s (handleUpdate b s) = [backup_user_config]
         \<and> update_openclaw \<notin> set (calls s (handleUpdate b s))
         \<and> \<not> updating (handleUpdate b s)"
  using assms by (simp add: handleUpdate_backup_rejected calls_def)

theorem backup_failure_reported_witness:
  "backup_user_config_reply deniedBackup = Inl ''Permission denied (os error 13)''
   \<and> updateResult (handleUpdate deniedBackup idle)
       = Some \<lparr>success = False, message = updateErrorMessage,
               error = Some ''Permission denied (os error 13)''\<rparr>
   \<and> calls idle (handleUpdate deniedBackup idle) = [backup_user_config]"
proof -
  have r: "backup_user_config_reply deniedBackup = Inl ''Permission denied (os error 13)''"
    by (simp add: deniedBackup_def)
  show ?thesis
    using r backup_failure_reported [OF r, of idle] by simp
qed

subsection \<open>A second trigger\<close>


subsection \<open>The update check\<close>

text \<open>
  Claim C9: if the remote update check throws, the stored update info and the banner
  flag are left unchanged: the failure changes no state variable of the component (only
  the record of invoked commands grows). And the check shows the banner only when the
  result it got has \<^verbatim>\<open>update_available\<close> true: for the flag it sets, for the condition
  under which the banner is rendered, and for the banner on the page.
\<close>

theorem check_failure_changes_nothing:
  "(checkUpdate t (Inl e) s = s\<lparr>invoked := invoked (checkUpdate t (Inl e) s)\<rparr>)
   \<and> (showUpdateBanner (checkUpdate t r s) \<and> \<not> showUpdateBanner s \<longrightarrow>
        (\<exists>info. r = Inr info \<and> update_available info))
   \<and> (bannerCondition (checkUpdate t r s) \<and> \<not> bannerCondition s \<longrightarrow>
        (\<exists>info. r = Inr info \<and> update_available info))
   \<and> (bannerShown (checkUpdate t r s) \<and> \<not> bannerShown s \<longrightarrow>
        (\<exists>info. r = Inr info \<and> update_available info))"
  by (cases r)
    (auto simp: checkUpdate_def bannerShown_def bannerCondition_def Let_def split: if_splits)

theorem check_failure_changes_nothing_witness:
  "showUpdateBanner (checkUpdate True (Inr offer) (run True initial mounted))
   \<and> \<not> showUpdateBanner (run True initial mounted)
   \<and> bannerCondition (checkUpdate True (Inr offer) (run True initial mounted))
   \<and> \<not> bannerCondition (run True initial mounted)
   \<and> bannerShown (checkUpdate True (Inr offer) (run True initial mounted))
   \<and> \<not> bannerShown (run True initial mounted)
   \<and> update_available offer
   \<and> checkUpdate True (Inl ''offline'') initial = initial\<lparr>invoked := [check_openclaw_update]\<rparr>"
proof -
  have 1: "showUpdateBanner (checkUpdate True (Inr offer) (run True initial mounted))"
    "\<not> showUpdateBanner (run True initial mounted)"
    "bannerCondition (checkUpdate True (Inr offer) (run True initial mounted))"
    "\<not> bannerCondition (run True initial mounted)"
    "bannerShown (checkUpdate True (Inr offer) (run True initial mounted))"
    "\<not> bannerShown (run True initial mounted)"
    by code_simp+
  have 2: "invoked (checkUpdate True (Inl ''offline'') initial) = [check_openclaw_update]"
    by code_simp
  show ?thesis
    using check_failure_changes_nothing
        [of True "''offline''" initial "Inr offer"]
      check_failure_changes_nothing
        [of True "''offline''" "run True initial mounted" "Inr offer"] 1 2
    by simp
qed

subsection \<open>The in-flight flag\<close>

text \<open>
  Claim C10: every invocation of the update handler resets \<^verbatim>\<open>updating\<close> to false when
  it completes, on every path (applied, failure reported, exception caught), so no
  outcome of one attempt blocks a later trigger. For one call run to completion the
  flag is false at the end whatever the backend answers; in the machine, whenever no
  activation is suspended the flag is false; and the events of one attempt, started
  with no activation suspended, leave no activation suspended and the flag false.
\<close>

theorem updating_reset_on_every_path:
  "\<not> updating (handleUpdate b s)
   \<and> (inflight (run t initial es) = [] \<longrightarrow> \<not> updating (run t initial es))
   \<and> (inflight m = [] \<longrightarrow>
        inflight (run (isTauri b) m (attempt b)) = []
        \<and> \<not> updating (run (isTauri b) m (attempt b)))"
proof -
  have "attempt_inv (run t initial es)"
    by (rule run_inv) (rule initial_inv)
  then have "inflight (run t initial es) = [] \<longrightarrow> \<not> updating (run t initial es)"
    by (auto simp: attempt_inv_def)
  moreover have "inflight (run (isTauri b) m (attempt b)) = []
        \<and> \<not> updating (run (isTauri b) m (attempt b))"
    if "inflight m = []"
    using that run_attempt[OF that, of b] handleUpdate_updating[of b m]
      handleUpdate_inflight[of b m]
    by simp
  ultimately show ?thesis
    using handleUpdate_updating[of b s] by blast
qed

theorem updating_reset_on_every_path_witness:
  "inflight (run True initial (opened @ [ClickUpdate, BackupSettled (Inl ''denied'')])) = []
   \<and> \<not> updating (run True initial (opened @ [ClickUpdate, BackupSettled (Inl ''denied'')]))
   \<and> inflight (run True initial opened) = []
   \<and> bannerShown (run True initial opened)
   \<and> \<not> updating (run True (run True initial opened) (attempt goodBackend))
   \<and> \<not> updating (handleUpdate goodBackend idle)"
proof -
  have 1: "inflight (run True initial
       (opened @ [ClickUpdate, BackupSettled (Inl ''denied'')])) = []"
    by code_simp
  have 2: "inflight (run True initial opened) = []"
    "bannerShown (run True initial opened)"
    by code_simp+
  have 3: "isTauri goodBackend = True"
    by (simp add: goodBackend_def)
  show ?thesis
    using updating_reset_on_every_path [of goodBackend idle True
        "opened @ [ClickUpdate, BackupSettled (Inl ''denied'')]"
        "run True initial opened"] 1 2 3
    by simp
qed

end
